theory Spec2Isabelle
  imports Complex_Main
begin

section \<open>Canonical correspondence analysis: the data model\<close>

text \<open>
  The development follows \<^verbatim>\<open>skbio/stats/ordination/_canonical_correspondence_analysis.py\<close>.
  A two-dimensional numpy array is a list of rows together with its number of columns, so
  that the shapes \<open>(0, m)\<close> and \<open>(n, 0)\<close> stay distinct, as they do in numpy. Entries are
  real numbers, standing for the finite floating point values of a table of dtype
  \<open>float64\<close>: the parameter checks of \<open>cca\<close> only compare entries, which is exact on
  finite floating point values. Rounding, NaN entries of the input and the wrap-around of
  integer tables are outside this model. A division by zero, which numpy answers with
  \<open>inf\<close> or \<open>nan\<close>, is not left to the division of the reals: the computation below
  tests for it.
\<close>

record ndarray =
  ncols :: nat
  rows :: "real list list"

definition nrows :: "ndarray \<Rightarrow> nat" where
  "nrows A = length (rows A)"

definition shape :: "ndarray \<Rightarrow> nat \<times> nat" where
  "shape A = (nrows A, ncols A)"

text \<open>An array is two-dimensional when every row has the declared number of columns.\<close>

definition is_2d :: "ndarray \<Rightarrow> bool" where
  "is_2d A = list_all (\<lambda>r. length r = ncols A) (rows A)"

text \<open>A pandas \<open>DataFrame\<close>: row labels, column labels and the matrix of values.\<close>

record frame =
  index :: "string list"
  columns :: "string list"
  matrix :: ndarray

text \<open>A pandas \<open>Series\<close>: values and their labels.\<close>

record series =
  series_data :: "real list"
  series_index :: "string list"

definition as_matrix :: "frame \<Rightarrow> ndarray" where
  "as_matrix f = matrix f"

text \<open>
  The errors of \<open>cca\<close>. The first three are the \<open>ValueError\<close>s raised by the function
  itself, the fourth its \<open>NotImplementedError\<close>; \<open>ZeroSizeReduction\<close> is the
  \<open>ValueError\<close> that numpy raises when \<open>min\<close> or \<open>max\<close> reduces an array without
  entries. \<open>LinAlgError\<close> is what \<open>np.linalg.lstsq\<close> and \<open>np.linalg.svd\<close> raise on a
  table with a \<open>nan\<close> entry, and \<open>NameError\<close> what Python raises at line 216, where
  the name \<open>pd\<close> is not bound.
\<close>

datatype error =
  RowCountMismatch
  | NegativeAbundance
  | DegenerateSampleRow
  | UnsupportedScaling
  | ZeroSizeReduction
  | LinAlgError
  | NameError

text \<open>What an \<open>OrdinationResults\<close> would store; \<open>cca\<close> never builds one (see below).\<close>

record ordination_results =
  short_method_name :: string
  long_method_name :: string
  eigvals :: series
  samples :: frame
  features :: frame
  biplot_scores :: frame
  sample_constraints :: frame
  proportion_explained :: series

section \<open>Array operations used by \<open>cca\<close>\<close>

text \<open>\<open>A.min()\<close>: the smallest entry; numpy raises on an array without entries.\<close>

definition amin :: "ndarray \<Rightarrow> error + real" where
  "amin A = (case concat (rows A) of
               [] \<Rightarrow> Inl ZeroSizeReduction
             | v # vs \<Rightarrow> Inr (fold min vs v))"

text \<open>\<open>A.max(axis=1)\<close>: the largest entry of every row; a row without entries raises.\<close>

fun row_max :: "real list \<Rightarrow> error + real" where
  "row_max [] = Inl ZeroSizeReduction"
| "row_max (v # vs) = Inr (fold max vs v)"

fun amax_axis1 :: "real list list \<Rightarrow> error + real list" where
  "amax_axis1 [] = Inr []"
| "amax_axis1 (r # rs) =
     (case row_max r of
        Inl e \<Rightarrow> Inl e
      | Inr m \<Rightarrow> (case amax_axis1 rs of Inl e \<Rightarrow> Inl e | Inr ms \<Rightarrow> Inr (m # ms)))"

text \<open>\<open>A.sum()\<close>, \<open>A.sum(axis=0)\<close> and \<open>A.sum(axis=1)\<close>.\<close>

definition asum :: "ndarray \<Rightarrow> real" where
  "asum A = sum_list (concat (rows A))"

definition column :: "ndarray \<Rightarrow> nat \<Rightarrow> real list" where
  "column A j = map (\<lambda>r. r ! j) (rows A)"

definition sum_axis0 :: "ndarray \<Rightarrow> real list" where
  "sum_axis0 A = map (\<lambda>j. sum_list (column A j)) [0..<ncols A]"

definition sum_axis1 :: "ndarray \<Rightarrow> real list" where
  "sum_axis1 A = map sum_list (rows A)"

text \<open>Entrywise operations: with a scalar, and between two arrays of one shape.\<close>

definition map_array :: "(real \<Rightarrow> real) \<Rightarrow> ndarray \<Rightarrow> ndarray" where
  "map_array f A = \<lparr>ncols = ncols A, rows = map (map f) (rows A)\<rparr>"

definition zip_array :: "(real \<Rightarrow> real \<Rightarrow> real) \<Rightarrow> ndarray \<Rightarrow> ndarray \<Rightarrow> ndarray" where
  "zip_array f A B = \<lparr>ncols = ncols A, rows = map2 (map2 f) (rows A) (rows B)\<rparr>"

text \<open>\<open>np.outer(a, b)\<close>.\<close>

definition outer :: "real list \<Rightarrow> real list \<Rightarrow> ndarray" where
  "outer a b = \<lparr>ncols = length b, rows = map (\<lambda>x. map (\<lambda>y. x * y) b) a\<rparr>"

text \<open>
  Broadcasting: \<open>v[:, None] * A\<close> multiplies row \<open>i\<close> of \<open>A\<close> by \<open>v[i]\<close>, and
  \<open>A * v\<close> multiplies column \<open>j\<close> of \<open>A\<close> by \<open>v[j]\<close>.
\<close>

definition mul_rows :: "real list \<Rightarrow> ndarray \<Rightarrow> ndarray" where
  "mul_rows v A = \<lparr>ncols = ncols A, rows = map2 (\<lambda>c r. map (\<lambda>a. c * a) r) v (rows A)\<rparr>"

definition mul_cols :: "ndarray \<Rightarrow> real list \<Rightarrow> ndarray" where
  "mul_cols A v = \<lparr>ncols = ncols A, rows = map (\<lambda>r. map2 (\<lambda>a c. a * c) r v) (rows A)\<rparr>"

text \<open>\<open>A.dot(B)\<close>, \<open>A.T\<close>, the slices \<open>A[:k]\<close> and \<open>A[:, :k]\<close>, and \<open>np.hstack((A, B))\<close>.\<close>

definition dot :: "ndarray \<Rightarrow> ndarray \<Rightarrow> ndarray" where
  "dot A B = \<lparr>ncols = ncols B,
              rows = map (\<lambda>r. map (\<lambda>j. sum_list (map2 (\<lambda>a b. a * b) r (column B j)))
                                   [0..<ncols B])
                         (rows A)\<rparr>"

definition transpose_array :: "ndarray \<Rightarrow> ndarray" where
  "transpose_array A = \<lparr>ncols = nrows A, rows = map (column A) [0..<ncols A]\<rparr>"

definition take_rows :: "nat \<Rightarrow> ndarray \<Rightarrow> ndarray" where
  "take_rows k A = \<lparr>ncols = ncols A, rows = take k (rows A)\<rparr>"

definition take_cols :: "nat \<Rightarrow> ndarray \<Rightarrow> ndarray" where
  "take_cols k A = \<lparr>ncols = min k (ncols A), rows = map (take k) (rows A)\<rparr>"

definition hstack :: "ndarray \<Rightarrow> ndarray \<Rightarrow> ndarray" where
  "hstack A B = \<lparr>ncols = ncols A + ncols B, rows = map2 (\<lambda>r t. r @ t) (rows A) (rows B)\<rparr>"

section \<open>The routines \<open>cca\<close> calls\<close>

text \<open>
  \<open>np.linalg.svd\<close> (with \<open>full_matrices=False\<close>) and \<open>np.linalg.lstsq\<close> belong to numpy;
  \<open>svd_rank\<close>, \<open>scale\<close> (called with \<open>ddof=0\<close>) and \<open>corr\<close> are imported from
  \<^verbatim>\<open>._utils\<close>. \<open>cca\<close> takes them as a parameter. Of \<open>lstsq\<close> only the first
  component of the result, the coefficient matrix, is used. \<open>scale\<close> divides by a standard
  deviation that may be zero: its result is \<open>None\<close> when the table it returns has an entry
  that is not finite. The numpy routines are taken to return on finite tables.
\<close>

record numerics =
  np_svd :: "ndarray \<Rightarrow> ndarray \<times> real list \<times> ndarray"
  np_lstsq :: "ndarray \<Rightarrow> ndarray \<Rightarrow> ndarray"
  svd_rank :: "nat \<times> nat \<Rightarrow> real list \<Rightarrow> nat"
  scale :: "ndarray \<Rightarrow> real list \<Rightarrow> ndarray option"
  corr :: "ndarray \<Rightarrow> ndarray \<Rightarrow> ndarray"

section \<open>\<open>cca\<close>: the parameter checks\<close>

text \<open>
  Lines 107 to 123, in the order of the source: the row counts, \<open>Y.min() < 0\<close>,
  \<open>np.any(Y.max(axis=1) <= 0)\<close>, and \<open>scaling not in {1, 2}\<close>.
\<close>

definition sanity_checks :: "ndarray \<Rightarrow> ndarray \<Rightarrow> int \<Rightarrow> error + unit" where
  "sanity_checks Y X scaling =
     (if nrows X \<noteq> nrows Y then Inl RowCountMismatch
      else case amin Y of
        Inl e \<Rightarrow> Inl e
      | Inr mn \<Rightarrow>
          if mn < 0 then Inl NegativeAbundance
          else case amax_axis1 (rows Y) of
            Inl e \<Rightarrow> Inl e
          | Inr row_maxs \<Rightarrow>
              if list_ex (\<lambda>m. m \<le> 0) row_maxs then Inl DegenerateSampleRow
              else if scaling \<notin> {1, 2} then Inl UnsupportedScaling
              else Inr ())"

section \<open>\<open>cca\<close>: the computation\<close>

text \<open>
  Each local variable of the source is a function of the numerical routines \<open>L\<close> and the
  matrices \<open>Y\<close> and \<open>X\<close>, named \<open>cca_\<close> followed by the variable's name. Line 142
  rebinds \<open>X\<close> to the standardised table \<open>scale(X, weights=row_marginals, ddof=0)\<close>; from
  \<open>X_weighted\<close> on, \<open>X\<close> is that table. The powers \<open>**0.5\<close>, \<open>**-0.5\<close> and \<open>**-1\<close>
  are the square root, its inverse and the inverse; the definitions are read where no
  divisor is zero, which \<open>cca_compute\<close> tests.
\<close>

definition cca_grand_total :: "ndarray \<Rightarrow> real" where
  "cca_grand_total Y = asum Y"

definition cca_Q :: "ndarray \<Rightarrow> ndarray" where
  "cca_Q Y = map_array (\<lambda>v. v / cca_grand_total Y) Y"

definition cca_column_marginals :: "ndarray \<Rightarrow> real list" where
  "cca_column_marginals Y = sum_axis0 (cca_Q Y)"

definition cca_row_marginals :: "ndarray \<Rightarrow> real list" where
  "cca_row_marginals Y = sum_axis1 (cca_Q Y)"

definition cca_expected :: "ndarray \<Rightarrow> ndarray" where
  "cca_expected Y = outer (cca_row_marginals Y) (cca_column_marginals Y)"

definition cca_Q_bar :: "ndarray \<Rightarrow> ndarray" where
  "cca_Q_bar Y = zip_array (\<lambda>q e. (q - e) / sqrt e) (cca_Q Y) (cca_expected Y)"

definition cca_X_weighted :: "ndarray \<Rightarrow> ndarray \<Rightarrow> ndarray" where
  "cca_X_weighted Y X = mul_rows (map sqrt (cca_row_marginals Y)) X"

definition cca_B :: "numerics \<Rightarrow> ndarray \<Rightarrow> ndarray \<Rightarrow> ndarray" where
  "cca_B L Y X = np_lstsq L (cca_X_weighted Y X) (cca_Q_bar Y)"

definition cca_Y_hat :: "numerics \<Rightarrow> ndarray \<Rightarrow> ndarray \<Rightarrow> ndarray" where
  "cca_Y_hat L Y X = dot (cca_X_weighted Y X) (cca_B L Y X)"

definition cca_Y_res :: "numerics \<Rightarrow> ndarray \<Rightarrow> ndarray \<Rightarrow> ndarray" where
  "cca_Y_res L Y X = zip_array (\<lambda>q h. q - h) (cca_Q_bar Y) (cca_Y_hat L Y X)"

text \<open>
  Step 4 and the residuals analysis run the same lines on \<open>Y_hat\<close> and on \<open>Y_res\<close>:
  the decomposition, \<open>svd_rank\<close> of the shape and the singular values, and the slices
  \<open>s[:rank]\<close>, \<open>u[:, :rank]\<close> and \<open>vt[:rank]\<close>.
\<close>

definition rank_of :: "numerics \<Rightarrow> ndarray \<Rightarrow> nat" where
  "rank_of L M = (case np_svd L M of (u, s, vt) \<Rightarrow> svd_rank L (shape M) s)"

definition s_of :: "numerics \<Rightarrow> ndarray \<Rightarrow> real list" where
  "s_of L M = (case np_svd L M of (u, s, vt) \<Rightarrow> take (rank_of L M) s)"

definition u_of :: "numerics \<Rightarrow> ndarray \<Rightarrow> ndarray" where
  "u_of L M = (case np_svd L M of (u, s, vt) \<Rightarrow> take_cols (rank_of L M) u)"

definition vt_of :: "numerics \<Rightarrow> ndarray \<Rightarrow> ndarray" where
  "vt_of L M = (case np_svd L M of (u, s, vt) \<Rightarrow> take_rows (rank_of L M) vt)"

definition cca_rank :: "numerics \<Rightarrow> ndarray \<Rightarrow> ndarray \<Rightarrow> nat" where
  "cca_rank L Y X = rank_of L (cca_Y_hat L Y X)"

definition cca_s :: "numerics \<Rightarrow> ndarray \<Rightarrow> ndarray \<Rightarrow> real list" where
  "cca_s L Y X = s_of L (cca_Y_hat L Y X)"

definition cca_u :: "numerics \<Rightarrow> ndarray \<Rightarrow> ndarray \<Rightarrow> ndarray" where
  "cca_u L Y X = u_of L (cca_Y_hat L Y X)"

definition cca_U :: "numerics \<Rightarrow> ndarray \<Rightarrow> ndarray \<Rightarrow> ndarray" where
  "cca_U L Y X = transpose_array (vt_of L (cca_Y_hat L Y X))"

definition cca_U_hat :: "numerics \<Rightarrow> ndarray \<Rightarrow> ndarray \<Rightarrow> ndarray" where
  "cca_U_hat L Y X = mul_cols (dot (cca_Q_bar Y) (cca_U L Y X)) (map inverse (cca_s L Y X))"

definition cca_rank_res :: "numerics \<Rightarrow> ndarray \<Rightarrow> ndarray \<Rightarrow> nat" where
  "cca_rank_res L Y X = rank_of L (cca_Y_res L Y X)"

definition cca_s_res :: "numerics \<Rightarrow> ndarray \<Rightarrow> ndarray \<Rightarrow> real list" where
  "cca_s_res L Y X = s_of L (cca_Y_res L Y X)"

definition cca_U_res :: "numerics \<Rightarrow> ndarray \<Rightarrow> ndarray \<Rightarrow> ndarray" where
  "cca_U_res L Y X = transpose_array (vt_of L (cca_Y_res L Y X))"

definition cca_U_hat_res :: "numerics \<Rightarrow> ndarray \<Rightarrow> ndarray \<Rightarrow> ndarray" where
  "cca_U_hat_res L Y X =
     mul_cols (dot (cca_Y_res L Y X) (cca_U_res L Y X)) (map inverse (cca_s_res L Y X))"

definition cca_eigenvalues :: "numerics \<Rightarrow> ndarray \<Rightarrow> ndarray \<Rightarrow> real list" where
  "cca_eigenvalues L Y X = map (\<lambda>v. v ^ 2) (cca_s L Y X @ cca_s_res L Y X)"

text \<open>The scalings, lines 173 to 202.\<close>

definition cca_V :: "numerics \<Rightarrow> ndarray \<Rightarrow> ndarray \<Rightarrow> ndarray" where
  "cca_V L Y X = mul_rows (map (\<lambda>c. inverse (sqrt c)) (cca_column_marginals Y)) (cca_U L Y X)"

definition cca_V_hat :: "numerics \<Rightarrow> ndarray \<Rightarrow> ndarray \<Rightarrow> ndarray" where
  "cca_V_hat L Y X = mul_rows (map (\<lambda>c. inverse (sqrt c)) (cca_row_marginals Y)) (cca_U_hat L Y X)"

definition cca_F :: "numerics \<Rightarrow> ndarray \<Rightarrow> ndarray \<Rightarrow> ndarray" where
  "cca_F L Y X = mul_cols (cca_V_hat L Y X) (cca_s L Y X)"

definition cca_F_hat :: "numerics \<Rightarrow> ndarray \<Rightarrow> ndarray \<Rightarrow> ndarray" where
  "cca_F_hat L Y X = mul_cols (cca_V L Y X) (cca_s L Y X)"

definition cca_Z_scaling1 :: "numerics \<Rightarrow> ndarray \<Rightarrow> ndarray \<Rightarrow> ndarray" where
  "cca_Z_scaling1 L Y X =
     mul_rows (map (\<lambda>c. inverse (sqrt c)) (cca_row_marginals Y))
              (dot (cca_Y_hat L Y X) (cca_U L Y X))"

definition cca_Z_scaling2 :: "numerics \<Rightarrow> ndarray \<Rightarrow> ndarray \<Rightarrow> ndarray" where
  "cca_Z_scaling2 L Y X = mul_cols (cca_Z_scaling1 L Y X) (map inverse (cca_s L Y X))"

definition cca_V_res :: "numerics \<Rightarrow> ndarray \<Rightarrow> ndarray \<Rightarrow> ndarray" where
  "cca_V_res L Y X =
     mul_rows (map (\<lambda>c. inverse (sqrt c)) (cca_column_marginals Y)) (cca_U_res L Y X)"

definition cca_V_hat_res :: "numerics \<Rightarrow> ndarray \<Rightarrow> ndarray \<Rightarrow> ndarray" where
  "cca_V_hat_res L Y X =
     mul_rows (map (\<lambda>c. inverse (sqrt c)) (cca_row_marginals Y)) (cca_U_hat_res L Y X)"

definition cca_F_res :: "numerics \<Rightarrow> ndarray \<Rightarrow> ndarray \<Rightarrow> ndarray" where
  "cca_F_res L Y X = mul_cols (cca_V_hat_res L Y X) (cca_s_res L Y X)"

definition cca_F_hat_res :: "numerics \<Rightarrow> ndarray \<Rightarrow> ndarray \<Rightarrow> ndarray" where
  "cca_F_hat_res L Y X = mul_cols (cca_V_res L Y X) (cca_s_res L Y X)"

text \<open>Lines 205 to 214: the scores chosen by \<open>scaling\<close>, and the biplot scores.\<close>

definition cca_species_scores :: "numerics \<Rightarrow> ndarray \<Rightarrow> ndarray \<Rightarrow> int \<Rightarrow> ndarray" where
  "cca_species_scores L Y X scaling =
     (if scaling = 1 then hstack (cca_V L Y X) (cca_V_res L Y X)
      else hstack (cca_F_hat L Y X) (cca_F_hat_res L Y X))"

definition cca_site_scores :: "numerics \<Rightarrow> ndarray \<Rightarrow> ndarray \<Rightarrow> int \<Rightarrow> ndarray" where
  "cca_site_scores L Y X scaling =
     (if scaling = 1 then hstack (cca_F L Y X) (cca_F_res L Y X)
      else hstack (cca_V_hat L Y X) (cca_V_hat_res L Y X))"

definition cca_site_constraints :: "numerics \<Rightarrow> ndarray \<Rightarrow> ndarray \<Rightarrow> int \<Rightarrow> ndarray" where
  "cca_site_constraints L Y X scaling =
     (if scaling = 1 then hstack (cca_Z_scaling1 L Y X) (cca_F_res L Y X)
      else hstack (cca_Z_scaling2 L Y X) (cca_V_hat_res L Y X))"

definition cca_biplot_scores :: "numerics \<Rightarrow> ndarray \<Rightarrow> ndarray \<Rightarrow> ndarray" where
  "cca_biplot_scores L Y X = corr L (cca_X_weighted Y X) (cca_u L Y X)"

text \<open>
  Lines 125 to 214 as a whole. A column of \<open>Y\<close> without a positive entry has marginal 0,
  so \<open>expected\<close> has entries 0 and line 137 computes \<open>0 / 0\<close>; a table with such an entry,
  or a standardised \<open>X\<close> that is not finite, makes the numpy routines of lines 146 to 162
  raise \<open>LinAlgError\<close>. Otherwise the lines run to the end and leave these locals.
\<close>

record cca_locals =
  local_eigenvalues :: "real list"
  local_species_scores :: ndarray
  local_site_scores :: ndarray
  local_site_constraints :: ndarray
  local_biplot_scores :: ndarray

definition zero_in_expected :: "ndarray \<Rightarrow> bool" where
  "zero_in_expected Y = list_ex (list_ex (\<lambda>e. e = 0)) (rows (cca_expected Y))"

definition cca_compute :: "numerics \<Rightarrow> ndarray \<Rightarrow> ndarray \<Rightarrow> int \<Rightarrow> error + cca_locals" where
  "cca_compute L Y X0 scaling =
     (case scale L X0 (cca_row_marginals Y) of
        None \<Rightarrow> Inl LinAlgError
      | Some X \<Rightarrow>
          if zero_in_expected Y then Inl LinAlgError
          else Inr \<lparr>local_eigenvalues = cca_eigenvalues L Y X,
                    local_species_scores = cca_species_scores L Y X scaling,
                    local_site_scores = cca_site_scores L Y X scaling,
                    local_site_constraints = cca_site_constraints L Y X scaling,
                    local_biplot_scores = cca_biplot_scores L Y X\<rparr>)"

text \<open>
  Lines 216 to 226 are unfinished. The module never imports pandas, so the first of them,
  \<open>eigvals = pd.Series(eigenvalues, index=[])\<close>, raises \<open>NameError\<close> on every call that
  gets there; the table constructors, \<open>OrdinationResults\<close> and
  \<open>eigvals / eigvals.sum()\<close> are never reached. (Line 220 writes \<open>index[]\<close>, which
  Python does not even parse, line 224 names an unbound \<open>feature\<close>, and every
  \<open>index\<close> and \<open>columns\<close> argument is the literal \<open>[]\<close>; read as \<open>index=[]\<close>, the
  function is the one below.) So \<open>cca\<close> has no value \<open>Inr\<close>.
\<close>

definition cca :: "numerics \<Rightarrow> frame \<Rightarrow> frame \<Rightarrow> int \<Rightarrow> error + ordination_results" where
  "cca L y x scaling =
     (let Y = as_matrix y; X = as_matrix x in
      case sanity_checks Y X scaling of
        Inl e \<Rightarrow> Inl e
      | Inr _ \<Rightarrow>
          (case cca_compute L Y X scaling of
             Inl e \<Rightarrow> Inl e
           | Inr locals \<Rightarrow> Inl NameError))"

section \<open>The validation conditions as the specification words them\<close>

text \<open>
  The four conditions of the specification's input validation: the row counts differ, some
  entry of \<open>Y\<close> is negative, some row of \<open>Y\<close> has a maximum entry that is not positive,
  the scaling is neither 1 nor 2. They are compared with \<open>sanity_checks\<close> below.
  \<open>has_entries\<close> says that an array has at least one row and one column, and
  \<open>raised_by_checks\<close> that an error is one of those raised by lines 107 to 123, before
  any computation; \<open>fails_in_checks\<close> that a call ended with such an error.
\<close>

definition spec_RowCountMismatch :: "ndarray \<Rightarrow> ndarray \<Rightarrow> bool" where
  "spec_RowCountMismatch Y X = (nrows X \<noteq> nrows Y)"

definition spec_NegativeAbundance :: "ndarray \<Rightarrow> bool" where
  "spec_NegativeAbundance Y = list_ex (list_ex (\<lambda>v. v < 0)) (rows Y)"

definition spec_DegenerateSampleRow :: "ndarray \<Rightarrow> bool" where
  "spec_DegenerateSampleRow Y = list_ex (\<lambda>r. r \<noteq> [] \<and> Max (set r) \<le> 0) (rows Y)"

definition spec_UnsupportedScaling :: "int \<Rightarrow> bool" where
  "spec_UnsupportedScaling scaling = (scaling \<notin> {1, 2})"

definition has_entries :: "ndarray \<Rightarrow> bool" where
  "has_entries A = (0 < nrows A \<and> 0 < ncols A)"

fun raised_by_checks :: "error \<Rightarrow> bool" where
  "raised_by_checks LinAlgError = False"
| "raised_by_checks NameError = False"
| "raised_by_checks e = True"

definition fails_in_checks :: "error + 'a \<Rightarrow> bool" where
  "fails_in_checks r = (case r of Inl e \<Rightarrow> raised_by_checks e | Inr v \<Rightarrow> False)"

section \<open>Worked inputs\<close>

text \<open>
  Modelled from the spec: \<open>svd_rank\<close> of \<^verbatim>\<open>._utils\<close>, which is not among the sources.
  It counts the singular values above a tolerance scaled by the largest dimension and the
  machine epsilon; singular values at or below the tolerance are dropped.
\<close>

definition svd_rank_spec :: "real \<Rightarrow> nat \<times> nat \<Rightarrow> real list \<Rightarrow> nat" where
  "svd_rank_spec eps sh S = length (filter (\<lambda>v. real (max (fst sh) (snd sh)) * eps < v) S)"

text \<open>
  Modelled from the spec: \<open>scale\<close> of \<^verbatim>\<open>._utils\<close>, which is not among the sources.
  It centres every column by its weighted mean and divides it by its weighted standard
  deviation, for weights summing to 1 and no degrees-of-freedom offset. A column of
  standard deviation 0 is divided by 0: the table is then not finite.
\<close>

definition weighted_mean :: "real list \<Rightarrow> real list \<Rightarrow> real" where
  "weighted_mean w c = sum_list (map2 (\<lambda>a b. a * b) w c)"

definition weighted_std :: "real list \<Rightarrow> real list \<Rightarrow> real" where
  "weighted_std w c = sqrt (weighted_mean w (map (\<lambda>v. (v - weighted_mean w c) ^ 2) c))"

definition scale_spec :: "ndarray \<Rightarrow> real list \<Rightarrow> ndarray option" where
  "scale_spec X w =
     (if list_ex (\<lambda>j. weighted_std w (column X j) = 0) [0..<ncols X] then None
      else Some \<lparr>ncols = ncols X,
                 rows = map (\<lambda>r. map (\<lambda>j. (r ! j - weighted_mean w (column X j))
                                           / weighted_std w (column X j))
                                      [0..<ncols X])
                            (rows X)\<rparr>)"

text \<open>
  Modelled from the spec: \<open>corr\<close> of \<^verbatim>\<open>._utils\<close>, which is not among the sources: the
  Pearson correlation between each column of one table and each column of another. It is
  evaluated below only on columns that are not constant.
\<close>

definition mean_list :: "real list \<Rightarrow> real" where
  "mean_list c = sum_list c / real (length c)"

definition pearson :: "real list \<Rightarrow> real list \<Rightarrow> real" where
  "pearson a b =
     sum_list (map2 (\<lambda>u v. (u - mean_list a) * (v - mean_list b)) a b)
       / (sqrt (sum_list (map (\<lambda>u. (u - mean_list a) ^ 2) a))
          * sqrt (sum_list (map (\<lambda>v. (v - mean_list b) ^ 2) b)))"

definition corr_spec :: "ndarray \<Rightarrow> ndarray \<Rightarrow> ndarray" where
  "corr_spec A B =
     \<lparr>ncols = ncols B,
      rows = map (\<lambda>i. map (\<lambda>j. pearson (column A i) (column B j)) [0..<ncols B])
                 [0..<ncols A]\<rparr>"

text \<open>
  Stand-ins for numpy on the worked inputs: \<open>lstsq_single\<close> is the least-squares solution
  for a design matrix of one column; \<open>svd_example\<close> returns the decomposition of the fitted
  table of the first worked input (\<open>Y_hat_example\<close>, singular values 1 and 0) and, for
  every other matrix, factors of the right shapes with singular values 0, which is a
  decomposition of the zero matrices that occur below.
\<close>

definition zeros :: "nat \<Rightarrow> nat \<Rightarrow> ndarray" where
  "zeros n m = \<lparr>ncols = m, rows = replicate n (replicate m 0)\<rparr>"

definition eye :: "nat \<Rightarrow> nat \<Rightarrow> ndarray" where
  "eye n m = \<lparr>ncols = m, rows = map (\<lambda>i. map (\<lambda>j. if i = j then 1 else 0) [0..<m]) [0..<n]\<rparr>"

definition lstsq_single :: "ndarray \<Rightarrow> ndarray \<Rightarrow> ndarray" where
  "lstsq_single A b =
     (if ncols A = 1
      then \<lparr>ncols = ncols b,
            rows = [map (\<lambda>j. sum_list (map2 (\<lambda>a c. a * c) (column A 0) (column b j))
                              / sum_list (map (\<lambda>a. a * a) (column A 0)))
                        [0..<ncols b]]\<rparr>
      else zeros (ncols A) (ncols b))"

definition Y_hat_example :: ndarray where
  "Y_hat_example = \<lparr>ncols = 2, rows = [[16/25, -12/25], [-12/25, 9/25]]\<rparr>"

definition svd_example :: "ndarray \<Rightarrow> ndarray \<times> real list \<times> ndarray" where
  "svd_example M =
     (if M = Y_hat_example
      then (\<lparr>ncols = 2, rows = [[-4/5, 3/5], [3/5, 4/5]]\<rparr>, [1, 0],
            \<lparr>ncols = 2, rows = [[-4/5, 3/5], [3/5, 4/5]]\<rparr>)
      else (let k = min (nrows M) (ncols M)
            in (eye (nrows M) k, replicate k 0, eye k (ncols M))))"

definition example_numerics :: numerics where
  "example_numerics =
     \<lparr>np_svd = svd_example, np_lstsq = lstsq_single,
      svd_rank = svd_rank_spec (1 / 2 ^ 52), scale = scale_spec, corr = corr_spec\<rparr>"

text \<open>
  The first worked input: two samples, two features, one constraint. Its relative
  frequencies have row and column marginals \<open>9/25\<close> and \<open>16/25\<close>, so every square root
  is rational. \<open>X_scaled_example\<close> is its standardised constraint table.
\<close>

definition Y_example :: ndarray where
  "Y_example = \<lparr>ncols = 2, rows = [[9, 0], [0, 16]]\<rparr>"

definition X_example :: ndarray where
  "X_example = \<lparr>ncols = 1, rows = [[0], [1]]\<rparr>"

definition X_scaled_example :: ndarray where
  "X_scaled_example = \<lparr>ncols = 1, rows = [[-4/3], [3/4]]\<rparr>"

definition y_example :: frame where
  "y_example = \<lparr>index = [''site1'', ''site2''], columns = [''sp1'', ''sp2''], matrix = Y_example\<rparr>"

definition x_example :: frame where
  "x_example = \<lparr>index = [''site1'', ''site2''], columns = [''depth''], matrix = X_example\<rparr>"

text \<open>
  A table without rows or columns, and the unlabelled table of a non-empty list of rows.
\<close>

definition empty_frame :: frame where
  "empty_frame = \<lparr>index = [], columns = [], matrix = \<lparr>ncols = 0, rows = []\<rparr>\<rparr>"

definition frame_of :: "real list list \<Rightarrow> frame" where
  "frame_of rs = \<lparr>index = [], columns = [], matrix = \<lparr>ncols = length (hd rs), rows = rs\<rparr>\<rparr>"

text \<open>
  A second input with a single feature: its table of standardised residuals is zero, so both
  decompositions are of zero matrices. \<open>X_scaled_single\<close> is its standardised constraint
  table.
\<close>

definition Y_single :: ndarray where
  "Y_single = \<lparr>ncols = 1, rows = [[1], [1]]\<rparr>"

definition X_single :: ndarray where
  "X_single = \<lparr>ncols = 1, rows = [[1], [2]]\<rparr>"

definition y_single :: frame where
  "y_single = \<lparr>index = [''site1'', ''site2''], columns = [''sp1''], matrix = Y_single\<rparr>"

definition x_single :: frame where
  "x_single = \<lparr>index = [''site1'', ''site2''], columns = [''depth''], matrix = X_single\<rparr>"

definition X_scaled_single :: ndarray where
  "X_scaled_single = \<lparr>ncols = 1, rows = [[-1], [1]]\<rparr>"

text \<open>
  A third input: the second feature is absent from both samples, and the only constraint is
  the constant 1.
\<close>

definition Y_zero_column :: ndarray where
  "Y_zero_column = \<lparr>ncols = 2, rows = [[1, 0], [1, 0]]\<rparr>"

definition X_ones :: ndarray where
  "X_ones = \<lparr>ncols = 1, rows = [[1], [1]]\<rparr>"

definition y_zero_column :: frame where
  "y_zero_column =
     \<lparr>index = [''site1'', ''site2''], columns = [''sp1'', ''sp2''], matrix = Y_zero_column\<rparr>"

definition x_ones :: frame where
  "x_ones = \<lparr>index = [''site1'', ''site2''], columns = [''one''], matrix = X_ones\<rparr>"

text \<open>The locals that lines 125 to 214 leave on the first two inputs.\<close>

definition example_locals :: "int \<Rightarrow> cca_locals" where
  "example_locals scaling = projr (cca_compute example_numerics Y_example X_example scaling)"

definition single_locals :: cca_locals where
  "single_locals = projr (cca_compute example_numerics Y_single X_single 1)"

section \<open>What is assumed of the numerical routines\<close>

text \<open>
  The documented contract of \<open>np.linalg.svd\<close> with \<open>full_matrices=False\<close>: there are
  as many rows of \<open>vt\<close> as singular values (\<open>svd_shapes\<close>), and the singular values are
  non-negative and in descending order (\<open>svd_sorted\<close>). \<open>svd_rank\<close> counts singular
  values, so it returns at most their number (\<open>svd_rank_bounded\<close>).
  \<open>rows_of_length k A\<close> says that every row of \<open>A\<close> has \<open>k\<close> entries.
\<close>

definition svd_shapes :: "numerics \<Rightarrow> bool" where
  "svd_shapes L = (\<forall>M. case np_svd L M of (u, s, vt) \<Rightarrow> nrows vt = length s)"

definition svd_sorted :: "numerics \<Rightarrow> bool" where
  "svd_sorted L =
     (\<forall>M. case np_svd L M of (u, s, vt) \<Rightarrow> sorted_wrt (\<lambda>a b. b \<le> a) s \<and> list_all (\<lambda>v. 0 \<le> v) s)"

definition svd_rank_bounded :: "numerics \<Rightarrow> bool" where
  "svd_rank_bounded L = (\<forall>sh s. svd_rank L sh s \<le> length s)"

definition rows_of_length :: "nat \<Rightarrow> ndarray \<Rightarrow> bool" where
  "rows_of_length k A = list_all (\<lambda>r. length r = k) (rows A)"

text \<open>\<open>all_zero A\<close> says that every entry of \<open>A\<close> is 0.\<close>

definition all_zero :: "ndarray \<Rightarrow> bool" where
  "all_zero A = list_all (list_all (\<lambda>v. v = 0)) (rows A)"

section \<open>The array operations on small arrays\<close>

lemma upt2: "[0..<2] = [0, 1]" "[0..<1] = [0]"
  by (simp_all add: upt_rec)

lemma array_operations_examples:
  "mul_cols \<lparr>ncols = 2, rows = [[1, 2], [3, 4]]\<rparr> [10, 100]
     = \<lparr>ncols = 2, rows = [[10, 200], [30, 400]]\<rparr>"
  "mul_rows [10, 100] \<lparr>ncols = 2, rows = [[1, 2], [3, 4]]\<rparr>
     = \<lparr>ncols = 2, rows = [[10, 20], [300, 400]]\<rparr>"
  "take_cols 1 \<lparr>ncols = 2, rows = [[1, 2], [3, 4]]\<rparr> = \<lparr>ncols = 1, rows = [[1], [3]]\<rparr>"
  "take_rows 1 \<lparr>ncols = 2, rows = [[1, 2], [3, 4]]\<rparr> = \<lparr>ncols = 2, rows = [[1, 2]]\<rparr>"
  "take_rows 0 \<lparr>ncols = 2, rows = [[1, 2], [3, 4]]\<rparr> = \<lparr>ncols = 2, rows = []\<rparr>"
  "transpose_array \<lparr>ncols = 2, rows = [[1, 2], [3, 4]]\<rparr>
     = \<lparr>ncols = 2, rows = [[1, 3], [2, 4]]\<rparr>"
  "transpose_array \<lparr>ncols = 2, rows = []\<rparr> = \<lparr>ncols = 0, rows = [[], []]\<rparr>"
  "dot \<lparr>ncols = 2, rows = [[1, 2], [3, 4]]\<rparr> \<lparr>ncols = 1, rows = [[5], [6]]\<rparr>
     = \<lparr>ncols = 1, rows = [[17], [39]]\<rparr>"
  "hstack \<lparr>ncols = 1, rows = [[1], [3]]\<rparr> \<lparr>ncols = 2, rows = [[5, 6], [7, 8]]\<rparr>
     = \<lparr>ncols = 3, rows = [[1, 5, 6], [3, 7, 8]]\<rparr>"
  "outer [1, 2] [3, 4] = \<lparr>ncols = 2, rows = [[3, 4], [6, 8]]\<rparr>"
  "sum_axis0 \<lparr>ncols = 2, rows = [[1, 2], [3, 4]]\<rparr> = [4, 6]"
  "sum_axis1 \<lparr>ncols = 2, rows = [[1, 2], [3, 4]]\<rparr> = [3, 7]"
  "zip_array (\<lambda>a b. a - b) \<lparr>ncols = 2, rows = [[1, 2], [3, 4]]\<rparr>
       \<lparr>ncols = 2, rows = [[1, 1], [1, 1]]\<rparr>
     = \<lparr>ncols = 2, rows = [[0, 1], [2, 3]]\<rparr>"
  by (simp_all add: mul_cols_def mul_rows_def take_cols_def take_rows_def transpose_array_def
      dot_def hstack_def outer_def sum_axis0_def sum_axis1_def zip_array_def column_def
      nrows_def upt2)

section \<open>The parameter checks decide by the four conditions\<close>

lemma fold_min_less: "(fold min vs v < (c::real)) = (v < c \<or> list_ex (\<lambda>a. a < c) vs)"
  by (induction vs arbitrary: v) (auto simp: min_less_iff_disj)

lemma fold_max_Max: "fold max vs (v::real) = Max (set (v # vs))"
  by (rule Max.set_eq_fold[symmetric])

lemma amin_Inl: "(amin A = Inl e) = (concat (rows A) = [] \<and> e = ZeroSizeReduction)"
  by (cases "concat (rows A)") (auto simp: amin_def simp del: concat_eq_Nil_conv)

lemma amin_Inr_neg:
  assumes "amin A = Inr mn"
  shows "(mn < 0) = spec_NegativeAbundance A"
proof -
  from assms obtain v vs where c: "concat (rows A) = v # vs" and m: "mn = fold min vs v"
    by (auto simp: amin_def split: list.splits)
  have "(mn < 0) = list_ex (\<lambda>a. a < 0) (concat (rows A))"
    by (simp add: c m fold_min_less)
  also have "\<dots> = spec_NegativeAbundance A"
    by (auto simp: spec_NegativeAbundance_def list_ex_iff)
  finally show ?thesis .
qed

lemma amax_axis1_nonempty:
  "list_all (\<lambda>r. r \<noteq> []) rs \<Longrightarrow> amax_axis1 rs = Inr (map (\<lambda>r. Max (set r)) rs)"
proof (induction rs)
  case Nil
  then show ?case by simp
next
  case (Cons r rs)
  then obtain v vs where "r = v # vs" by (cases r) auto
  with Cons show ?case by (simp add: fold_max_Max)
qed

lemma is_2d_rows_nonempty:
  "is_2d A \<Longrightarrow> 0 < ncols A \<Longrightarrow> list_all (\<lambda>r. r \<noteq> []) (rows A)"
  by (auto simp: is_2d_def list_all_iff)

lemma has_entries_concat:
  "is_2d A \<Longrightarrow> has_entries A \<Longrightarrow> concat (rows A) \<noteq> []"
  by (cases "rows A") (auto simp: is_2d_def has_entries_def nrows_def)

lemma degenerate_iff:
  "list_all (\<lambda>r. r \<noteq> []) rs \<Longrightarrow>
     list_ex (\<lambda>m. m \<le> 0) (map (\<lambda>r. Max (set r)) rs) = list_ex (\<lambda>r. r \<noteq> [] \<and> Max (set r) \<le> (0::real)) rs"
  by (auto simp: list_ex_iff list_all_iff)

lemma sanity_checks_eq:
  assumes "is_2d Y" "has_entries Y"
  shows "sanity_checks Y X scaling =
     (if spec_RowCountMismatch Y X then Inl RowCountMismatch
      else if spec_NegativeAbundance Y then Inl NegativeAbundance
      else if spec_DegenerateSampleRow Y then Inl DegenerateSampleRow
      else if spec_UnsupportedScaling scaling then Inl UnsupportedScaling
      else Inr ())"
proof -
  obtain mn where mn: "amin Y = Inr mn"
    using has_entries_concat[OF assms] by (cases "amin Y") (auto simp: amin_Inl)
  have ne: "list_all (\<lambda>r. r \<noteq> []) (rows Y)"
    using assms by (simp add: is_2d_rows_nonempty has_entries_def)
  show ?thesis
    unfolding sanity_checks_def
    by (simp add: mn amin_Inr_neg[OF mn] amax_axis1_nonempty[OF ne] degenerate_iff[OF ne]
        spec_RowCountMismatch_def spec_DegenerateSampleRow_def spec_UnsupportedScaling_def)
qed

lemma amax_axis1_error: "amax_axis1 rs = Inl e \<Longrightarrow> e = ZeroSizeReduction"
proof (induction rs)
  case Nil
  then show ?case by simp
next
  case (Cons r rs)
  then show ?case by (cases r) (auto split: sum.splits)
qed

lemma sanity_checks_error: "sanity_checks Y X scaling = Inl e \<Longrightarrow> raised_by_checks e"
  by (auto simp: sanity_checks_def amin_Inl dest: amax_axis1_error split: if_splits sum.splits)

lemma cca_compute_error: "cca_compute L Y X scaling = Inl e \<Longrightarrow> e = LinAlgError"
  by (auto simp: cca_compute_def split: option.splits if_splits)

lemma cca_of_checks: "sanity_checks (as_matrix y) (as_matrix x) scaling = Inl e \<Longrightarrow>
    cca L y x scaling = Inl e"
  by (simp add: cca_def Let_def)

lemma cca_after_checks:
  "sanity_checks (as_matrix y) (as_matrix x) scaling = Inr () \<Longrightarrow>
     cca L y x scaling =
       (case cca_compute L (as_matrix y) (as_matrix x) scaling of
          Inl e \<Rightarrow> Inl e | Inr locals \<Rightarrow> Inl NameError)"
  by (simp add: cca_def Let_def)

lemma cca_never_returns: "cca L y x scaling \<noteq> Inr r"
  by (simp add: cca_def Let_def split: sum.splits)

lemma fails_in_checks_cca:
  "fails_in_checks (cca L y x scaling) = isl (sanity_checks (as_matrix y) (as_matrix x) scaling)"
proof (cases "sanity_checks (as_matrix y) (as_matrix x) scaling")
  case (Inl e)
  then show ?thesis
    by (simp add: cca_of_checks[OF Inl] fails_in_checks_def sanity_checks_error[OF Inl])
next
  case (Inr u)
  then have "sanity_checks (as_matrix y) (as_matrix x) scaling = Inr ()" by simp
  then show ?thesis
    by (auto simp: cca_after_checks fails_in_checks_def dest: cca_compute_error
        split: sum.splits)
qed

lemma spec_neg_amin:
  assumes "spec_NegativeAbundance Y"
  shows "\<exists>mn. amin Y = Inr mn \<and> mn < 0"
proof -
  from assms have "concat (rows Y) \<noteq> []"
    by (fastforce simp: spec_NegativeAbundance_def list_ex_iff)
  then obtain mn where mn: "amin Y = Inr mn"
    by (cases "amin Y") (auto simp: amin_Inl)
  with assms show ?thesis by (simp add: amin_Inr_neg)
qed

lemma degenerate_has_entries:
  assumes "is_2d Y" and "spec_DegenerateSampleRow Y"
  shows "has_entries Y"
proof -
  from assms(2) obtain r where r: "r \<in> set (rows Y)" "r \<noteq> []"
    by (auto simp: spec_DegenerateSampleRow_def list_ex_iff)
  with assms(1) have "length r = ncols Y" by (simp add: is_2d_def list_all_iff)
  moreover have "0 < length r" using r(2) by simp
  ultimately have "0 < ncols Y" by simp
  moreover from r have "0 < nrows Y" by (cases "rows Y") (auto simp: nrows_def)
  ultimately show ?thesis by (simp add: has_entries_def)
qed

lemma sanity_mismatch:
  "spec_RowCountMismatch Y X \<Longrightarrow> sanity_checks Y X scaling = Inl RowCountMismatch"
  by (simp add: sanity_checks_def spec_RowCountMismatch_def)

lemma sanity_negative:
  "\<not> spec_RowCountMismatch Y X \<Longrightarrow> spec_NegativeAbundance Y \<Longrightarrow>
     sanity_checks Y X scaling = Inl NegativeAbundance"
  using spec_neg_amin[of Y] by (auto simp: sanity_checks_def spec_RowCountMismatch_def)

text \<open>
  C10. When several of the conditions hold at once, the error is fixed by the order of the
  checks: a row-count mismatch is reported whatever else holds; with matching row counts a
  negative entry of \<open>Y\<close> is reported next; then a row of \<open>Y\<close> without a positive entry;
  the unsupported scaling comes last. In particular a \<open>Y\<close> with a negative entry, called
  with \<open>scaling = 3\<close> and matching row counts, yields \<open>NegativeAbundance\<close>.
\<close>

theorem cca_check_order:
  "(spec_RowCountMismatch (as_matrix y) (as_matrix x) \<longrightarrow>
      cca L y x scaling = Inl RowCountMismatch) \<and>
   (\<not> spec_RowCountMismatch (as_matrix y) (as_matrix x) \<and> spec_NegativeAbundance (as_matrix y) \<longrightarrow>
      cca L y x scaling = Inl NegativeAbundance) \<and>
   (is_2d (as_matrix y) \<and> \<not> spec_RowCountMismatch (as_matrix y) (as_matrix x) \<and>
    \<not> spec_NegativeAbundance (as_matrix y) \<and> spec_DegenerateSampleRow (as_matrix y) \<longrightarrow>
      cca L y x scaling = Inl DegenerateSampleRow) \<and>
   (is_2d (as_matrix y) \<and> has_entries (as_matrix y) \<and>
    \<not> spec_RowCountMismatch (as_matrix y) (as_matrix x) \<and>
    \<not> spec_NegativeAbundance (as_matrix y) \<and> \<not> spec_DegenerateSampleRow (as_matrix y) \<and>
    spec_UnsupportedScaling scaling \<longrightarrow>
      cca L y x scaling = Inl UnsupportedScaling) \<and>
   (nrows (as_matrix x) = nrows (as_matrix y) \<and> spec_NegativeAbundance (as_matrix y) \<longrightarrow>
      cca L y x 3 = Inl NegativeAbundance)"
proof (intro conjI impI)
  assume "spec_RowCountMismatch (as_matrix y) (as_matrix x)"
  then show "cca L y x scaling = Inl RowCountMismatch"
    by (simp add: cca_of_checks sanity_mismatch)
next
  assume "\<not> spec_RowCountMismatch (as_matrix y) (as_matrix x) \<and> spec_NegativeAbundance (as_matrix y)"
  then show "cca L y x scaling = Inl NegativeAbundance"
    by (simp add: cca_of_checks sanity_negative)
next
  assume a: "is_2d (as_matrix y) \<and> \<not> spec_RowCountMismatch (as_matrix y) (as_matrix x) \<and>
    \<not> spec_NegativeAbundance (as_matrix y) \<and> spec_DegenerateSampleRow (as_matrix y)"
  then have "has_entries (as_matrix y)" by (simp add: degenerate_has_entries)
  with a show "cca L y x scaling = Inl DegenerateSampleRow"
    by (simp add: cca_of_checks sanity_checks_eq)
next
  assume "is_2d (as_matrix y) \<and> has_entries (as_matrix y) \<and>
    \<not> spec_RowCountMismatch (as_matrix y) (as_matrix x) \<and>
    \<not> spec_NegativeAbundance (as_matrix y) \<and> \<not> spec_DegenerateSampleRow (as_matrix y) \<and>
    spec_UnsupportedScaling scaling"
  then show "cca L y x scaling = Inl UnsupportedScaling"
    by (simp add: cca_of_checks sanity_checks_eq)
next
  assume "nrows (as_matrix x) = nrows (as_matrix y) \<and> spec_NegativeAbundance (as_matrix y)"
  then show "cca L y x 3 = Inl NegativeAbundance"
    by (simp add: cca_of_checks sanity_negative spec_RowCountMismatch_def)
qed

lemma ex_simps:
  "as_matrix y_example = Y_example" "as_matrix x_example = X_example"
  "nrows Y_example = 2" "nrows X_example = 2" "ncols Y_example = 2"
  "is_2d Y_example" "has_entries Y_example"
  "\<not> spec_RowCountMismatch Y_example X_example"
  "\<not> spec_NegativeAbundance Y_example" "\<not> spec_DegenerateSampleRow Y_example"
  by (simp_all add: as_matrix_def y_example_def x_example_def nrows_def Y_example_def
      X_example_def is_2d_def has_entries_def spec_RowCountMismatch_def
      spec_NegativeAbundance_def spec_DegenerateSampleRow_def)

theorem cca_check_order_witness:
  "cca example_numerics (frame_of [[1, -1], [0, 0]]) (frame_of [[1]]) 3 = Inl RowCountMismatch \<and>
   cca example_numerics (frame_of [[1, -1], [0, 0]]) (frame_of [[1], [2]]) 3 = Inl NegativeAbundance \<and>
   cca example_numerics (frame_of [[1, 2], [0, 0]]) (frame_of [[1], [2]]) 3 = Inl DegenerateSampleRow \<and>
   cca example_numerics y_example x_example 3 = Inl UnsupportedScaling"
proof (intro conjI)
  show "cca example_numerics (frame_of [[1, -1], [0, 0]]) (frame_of [[1]]) 3 = Inl RowCountMismatch"
    using cca_check_order[of "frame_of [[1, -1], [0, 0]]" "frame_of [[1]]" example_numerics 3]
    by (simp add: as_matrix_def frame_of_def nrows_def spec_RowCountMismatch_def)
  show "cca example_numerics (frame_of [[1, -1], [0, 0]]) (frame_of [[1], [2]]) 3
          = Inl NegativeAbundance"
    using cca_check_order[of "frame_of [[1, -1], [0, 0]]" "frame_of [[1], [2]]" example_numerics 3]
    by (simp add: as_matrix_def frame_of_def nrows_def spec_RowCountMismatch_def
        spec_NegativeAbundance_def)
  show "cca example_numerics (frame_of [[1, 2], [0, 0]]) (frame_of [[1], [2]]) 3
          = Inl DegenerateSampleRow"
    using cca_check_order[of "frame_of [[1, 2], [0, 0]]" "frame_of [[1], [2]]" example_numerics 3]
    by (simp add: as_matrix_def frame_of_def nrows_def is_2d_def spec_RowCountMismatch_def
        spec_NegativeAbundance_def spec_DegenerateSampleRow_def)
  show "cca example_numerics y_example x_example 3 = Inl UnsupportedScaling"
    using cca_check_order[of y_example x_example example_numerics 3]
    by (simp add: ex_simps spec_UnsupportedScaling_def)
qed

lemma no_entries_rejected:
  assumes "is_2d (as_matrix y)" and "\<not> has_entries (as_matrix y)"
    and "nrows (as_matrix x) = nrows (as_matrix y)"
  shows "cca L y x scaling = Inl ZeroSizeReduction"
proof -
  have "concat (rows (as_matrix y)) = []"
    using assms(1,2) by (auto simp: is_2d_def has_entries_def nrows_def list_all_iff)
  then have "amin (as_matrix y) = Inl ZeroSizeReduction"
    by (simp only: amin_Inl simp_thms)
  then have "sanity_checks (as_matrix y) (as_matrix x) scaling = Inl ZeroSizeReduction"
    using assms(3) by (simp add: sanity_checks_def)
  then show ?thesis by (rule cca_of_checks)
qed

text \<open>
  C1, amended. For a table \<open>Y\<close> with at least one row and one column, \<open>cca\<close> fails in
  its parameter checks, before any computation, if and only if one of the four conditions
  holds, and it never fails with the error of an empty reduction; no property of \<open>X\<close> other
  than its row count is looked at. (A \<open>Y\<close> without entries is rejected by the minimum
  itself, see the counterexample.)
\<close>

theorem cca_rejects_iff:
  assumes "is_2d (as_matrix y)" and "has_entries (as_matrix y)"
  shows "(fails_in_checks (cca L y x scaling) =
           (spec_RowCountMismatch (as_matrix y) (as_matrix x) \<or> spec_NegativeAbundance (as_matrix y)
            \<or> spec_DegenerateSampleRow (as_matrix y) \<or> spec_UnsupportedScaling scaling))
         \<and> cca L y x scaling \<noteq> Inl ZeroSizeReduction"
proof -
  have "cca L y x scaling \<noteq> Inl ZeroSizeReduction"
  proof (cases "sanity_checks (as_matrix y) (as_matrix x) scaling")
    case (Inl e)
    then show ?thesis
      using cca_of_checks[OF Inl, of L]
      by (auto simp: sanity_checks_eq[OF assms] split: if_splits)
  next
    case (Inr u)
    then have "sanity_checks (as_matrix y) (as_matrix x) scaling = Inr ()" by simp
    then show ?thesis
      by (auto simp: cca_after_checks dest: cca_compute_error split: sum.splits)
  qed
  then show ?thesis
    by (simp add: fails_in_checks_cca sanity_checks_eq[OF assms])
qed

theorem cca_rejects_iff_witness:
  "is_2d (as_matrix y_example) \<and> has_entries (as_matrix y_example) \<and>
   \<not> fails_in_checks (cca example_numerics y_example x_example 1) \<and>
   fails_in_checks (cca example_numerics y_example x_example 3)"
  using cca_rejects_iff[of y_example example_numerics x_example 1]
    cca_rejects_iff[of y_example example_numerics x_example 3]
  by (simp add: ex_simps spec_UnsupportedScaling_def)

text \<open>
  C1 as stated fails for a table without entries: the row counts agree, no entry is negative,
  there is no row, the scaling is 1, and still \<open>Y.min()\<close> raises.
\<close>

theorem cca_rejects_iff_counterexample:
  "cca example_numerics empty_frame empty_frame 1 = Inl ZeroSizeReduction \<and>
   \<not> (spec_RowCountMismatch (as_matrix empty_frame) (as_matrix empty_frame)
      \<or> spec_NegativeAbundance (as_matrix empty_frame)
      \<or> spec_DegenerateSampleRow (as_matrix empty_frame) \<or> spec_UnsupportedScaling 1)"
proof -
  have "sanity_checks (as_matrix empty_frame) (as_matrix empty_frame) 1 = Inl ZeroSizeReduction"
    by (simp add: sanity_checks_def amin_def as_matrix_def empty_frame_def nrows_def)
  then show ?thesis
    by (simp add: cca_of_checks as_matrix_def empty_frame_def nrows_def
        spec_RowCountMismatch_def spec_NegativeAbundance_def spec_DegenerateSampleRow_def
        spec_UnsupportedScaling_def)
qed

section \<open>Shapes and blocks of the locals\<close>

lemma rows_of_length_mul_rows:
  "rows_of_length k A \<Longrightarrow> rows_of_length k (mul_rows v A)"
  by (auto simp: rows_of_length_def mul_rows_def list_all_iff dest!: set_zip_rightD)

lemma rows_of_length_mul_cols:
  "rows_of_length k A \<Longrightarrow> length v = k \<Longrightarrow> rows_of_length k (mul_cols A v)"
  by (auto simp: rows_of_length_def mul_cols_def list_all_iff)

lemma rows_of_length_dot: "rows_of_length (ncols B) (dot A B)"
  by (auto simp: rows_of_length_def dot_def list_all_iff)

lemma rows_of_length_transpose: "rows_of_length (nrows A) (transpose_array A)"
  by (auto simp: rows_of_length_def transpose_array_def column_def nrows_def list_all_iff)

lemma rows_of_length_hstack:
  "rows_of_length k A \<Longrightarrow> rows_of_length l B \<Longrightarrow> rows_of_length (k + l) (hstack A B)"
  unfolding rows_of_length_def hstack_def list_all_iff
  by (auto; metis set_zip_leftD set_zip_rightD)

lemma ncols_simps:
  "ncols (mul_rows v A) = ncols A" "ncols (mul_cols A v) = ncols A"
  "ncols (dot A B) = ncols B" "ncols (transpose_array A) = nrows A"
  "ncols (hstack A B) = ncols A + ncols B"
  by (simp_all add: mul_rows_def mul_cols_def dot_def transpose_array_def hstack_def)

lemma nrows_vt_of: "svd_shapes L \<Longrightarrow> nrows (vt_of L M) = length (s_of L M)"
  by (cases "np_svd L M")
     (auto simp: svd_shapes_def vt_of_def s_of_def take_rows_def nrows_def
           dest!: spec[where x = M])

lemma hstack_mul_cols:
  assumes "rows_of_length (length v) A"
  shows "hstack (mul_cols A v) (mul_cols B w) = mul_cols (hstack A B) (v @ w)"
proof -
  have "map2 (\<lambda>r t. r @ t) (map (\<lambda>r. map2 (\<lambda>a c. a * c) r v) as)
                            (map (\<lambda>r. map2 (\<lambda>a c. a * c) r w) bs)
        = map (\<lambda>r. map2 (\<lambda>a c. a * c) r (v @ w)) (map2 (\<lambda>r t. r @ t) as bs)"
    if "list_all (\<lambda>r. length r = length v) as" for as bs
    using that
  proof (induction as arbitrary: bs)
    case Nil
    then show ?case by simp
  next
    case (Cons a as)
    then show ?case by (cases bs) (simp_all add: zip_append)
  qed
  with assms show ?thesis
    by (simp add: hstack_def mul_cols_def rows_of_length_def)
qed

lemma U_rows: "svd_shapes L \<Longrightarrow> rows_of_length (length (s_of L M)) (transpose_array (vt_of L M))"
  using rows_of_length_transpose[of "vt_of L M"] by (simp add: nrows_vt_of)

lemma U_ncols: "svd_shapes L \<Longrightarrow> ncols (transpose_array (vt_of L M)) = length (s_of L M)"
  by (simp add: ncols_simps nrows_vt_of)

lemma U_hat_rows:
  "svd_shapes L \<Longrightarrow>
   rows_of_length (length (s_of L M))
     (mul_cols (dot Q (transpose_array (vt_of L M))) (map inverse (s_of L M)))"
  using rows_of_length_dot[of "transpose_array (vt_of L M)" Q]
  by (simp add: rows_of_length_mul_cols U_ncols)

lemma shapes_fit:
  assumes "svd_shapes L"
  shows "rows_of_length (length (cca_s L Y X)) (cca_V L Y X)"
    and "rows_of_length (length (cca_s L Y X)) (cca_V_hat L Y X)"
    and "ncols (cca_V L Y X) = length (cca_s L Y X)"
    and "ncols (cca_V_hat L Y X) = length (cca_s L Y X)"
  using assms
  by (simp_all add: cca_V_def cca_V_hat_def cca_U_hat_def cca_U_def cca_s_def
      rows_of_length_mul_rows U_rows U_hat_rows ncols_simps nrows_vt_of)

lemma shapes_res:
  assumes "svd_shapes L"
  shows "rows_of_length (length (cca_s_res L Y X)) (cca_V_res L Y X)"
    and "rows_of_length (length (cca_s_res L Y X)) (cca_V_hat_res L Y X)"
    and "ncols (cca_V_res L Y X) = length (cca_s_res L Y X)"
    and "ncols (cca_V_hat_res L Y X) = length (cca_s_res L Y X)"
  using assms
  by (simp_all add: cca_V_res_def cca_V_hat_res_def cca_U_hat_res_def cca_U_res_def cca_s_res_def
      rows_of_length_mul_rows U_rows U_hat_rows ncols_simps nrows_vt_of)

lemma locals_shapes:
  assumes "svd_shapes L"
  shows "length (cca_eigenvalues L Y X) = length (cca_s L Y X) + length (cca_s_res L Y X)"
    and "ncols (cca_site_scores L Y X scaling) = length (cca_eigenvalues L Y X)"
    and "ncols (cca_species_scores L Y X scaling) = length (cca_eigenvalues L Y X)"
    and "rows_of_length (length (cca_eigenvalues L Y X)) (cca_site_scores L Y X scaling)"
    and "rows_of_length (length (cca_eigenvalues L Y X)) (cca_species_scores L Y X scaling)"
proof -
  note fit = shapes_fit[OF assms, of Y X] and res = shapes_res[OF assms, of Y X]
  show len: "length (cca_eigenvalues L Y X) = length (cca_s L Y X) + length (cca_s_res L Y X)"
    by (simp add: cca_eigenvalues_def)
  show "ncols (cca_site_scores L Y X scaling) = length (cca_eigenvalues L Y X)"
    "rows_of_length (length (cca_eigenvalues L Y X)) (cca_site_scores L Y X scaling)"
    using fit res
    by (simp_all add: len cca_site_scores_def cca_F_def cca_F_res_def ncols_simps
        rows_of_length_hstack rows_of_length_mul_cols)
  show "ncols (cca_species_scores L Y X scaling) = length (cca_eigenvalues L Y X)"
    "rows_of_length (length (cca_eigenvalues L Y X)) (cca_species_scores L Y X scaling)"
    using fit res
    by (simp_all add: len cca_species_scores_def cca_F_hat_def cca_F_hat_res_def ncols_simps
        rows_of_length_hstack rows_of_length_mul_cols)
qed

lemma locals_ranks:
  assumes "svd_rank_bounded L"
  shows "length (cca_s L Y X) = cca_rank L Y X" and "length (cca_s_res L Y X) = cca_rank_res L Y X"
proof -
  have rk: "length (s_of L M) = rank_of L M" for M
    using assms
    by (cases "np_svd L M") (simp add: s_of_def rank_of_def svd_rank_bounded_def min_absorb2
        del: split_paired_All)
  show "length (cca_s L Y X) = cca_rank L Y X"
    and "length (cca_s_res L Y X) = cca_rank_res L Y X"
    by (simp_all add: cca_s_def cca_s_res_def cca_rank_def cca_rank_res_def rk)
qed

lemma locals_duality:
  assumes "svd_shapes L"
  shows "cca_site_scores L Y X 1 =
           mul_cols (cca_site_scores L Y X 2) (cca_s L Y X @ cca_s_res L Y X)"
    and "cca_species_scores L Y X 2 =
           mul_cols (cca_species_scores L Y X 1) (cca_s L Y X @ cca_s_res L Y X)"
  using shapes_fit[OF assms, of Y X]
  by (simp_all add: cca_site_scores_def cca_species_scores_def cca_F_def cca_F_res_def
      cca_F_hat_def cca_F_hat_res_def hstack_mul_cols)

lemma sorted_sq:
  "sorted_wrt (\<lambda>a b. b \<le> a) s \<Longrightarrow> list_all (\<lambda>v. 0 \<le> v) s \<Longrightarrow>
     sorted_wrt (\<lambda>a b. b \<le> a) (map (\<lambda>v. v ^ 2) (take k (s::real list)))"
proof -
  assume a: "sorted_wrt (\<lambda>a b. b \<le> a) s" "list_all (\<lambda>v. 0 \<le> v) s"
  have "sorted_wrt (\<lambda>a b. b \<le> a) (take k s)"
    using a(1) by (simp add: sorted_wrt_take)
  moreover have "list_all (\<lambda>v. 0 \<le> v) (take k s)"
    using a(2) by (auto simp: list_all_iff dest: in_set_takeD)
  ultimately show ?thesis
    by (auto simp: sorted_wrt_map list_all_iff intro!: sorted_wrt_mono_rel[where P = "\<lambda>a b. b \<le> a"]
        power_mono)
qed

lemma locals_sorted:
  assumes "svd_sorted L"
  shows "sorted_wrt (\<lambda>a b. b \<le> a) (take (length (cca_s L Y X)) (cca_eigenvalues L Y X))"
    and "sorted_wrt (\<lambda>a b. b \<le> a) (drop (length (cca_s L Y X)) (cca_eigenvalues L Y X))"
proof -
  have "sorted_wrt (\<lambda>a b. b \<le> a) (map (\<lambda>v. v ^ 2) (s_of L M))" for M
  proof (cases "np_svd L M")
    case (fields u s vt)
    with assms have "sorted_wrt (\<lambda>a b. b \<le> a) s \<and> list_all (\<lambda>v. 0 \<le> v) s"
      by (auto simp: svd_sorted_def dest!: spec[where x = M])
    then show ?thesis by (simp add: s_of_def fields sorted_sq)
  qed
  then show "sorted_wrt (\<lambda>a b. b \<le> a) (take (length (cca_s L Y X)) (cca_eigenvalues L Y X))"
    and "sorted_wrt (\<lambda>a b. b \<le> a) (drop (length (cca_s L Y X)) (cca_eigenvalues L Y X))"
    by (simp_all add: cca_eigenvalues_def cca_s_def cca_s_res_def)
qed


section \<open>When lines 125 to 214 complete, and what \<open>cca\<close> does then\<close>

lemma cca_compute_completes:
  assumes "scale L X0 (cca_row_marginals Y) = Some X" and "\<not> zero_in_expected Y"
  shows "cca_compute L Y X0 scaling =
           Inr \<lparr>local_eigenvalues = cca_eigenvalues L Y X,
                local_species_scores = cca_species_scores L Y X scaling,
                local_site_scores = cca_site_scores L Y X scaling,
                local_site_constraints = cca_site_constraints L Y X scaling,
                local_biplot_scores = cca_biplot_scores L Y X\<rparr>"
  using assms by (simp add: cca_compute_def)

lemma cca_raises_NameError:
  assumes "sanity_checks (as_matrix y) (as_matrix x) scaling = Inr ()"
    and "scale L (as_matrix x) (cca_row_marginals (as_matrix y)) = Some X"
    and "\<not> zero_in_expected (as_matrix y)"
  shows "cca L y x scaling = Inl NameError"
  by (simp add: cca_after_checks[OF assms(1)] cca_compute_completes[OF assms(2,3)])

lemma cca_raises_LinAlgError:
  assumes "sanity_checks (as_matrix y) (as_matrix x) scaling = Inr ()"
    and "zero_in_expected (as_matrix y)
         \<or> scale L (as_matrix x) (cca_row_marginals (as_matrix y)) = None"
  shows "cca L y x scaling = Inl LinAlgError"
  using assms(2)
  by (auto simp: cca_after_checks[OF assms(1)] cca_compute_def split: option.splits)

lemma cca_ignores_labels:
  "cca L (y\<lparr>index := i, columns := c\<rparr>) (x\<lparr>index := j, columns := d\<rparr>) scaling
     = cca L y x scaling"
  by (simp add: cca_def as_matrix_def)

section \<open>The numerical routines of the worked inputs\<close>

lemma sorted_wrt_replicate_refl: "P x x \<Longrightarrow> sorted_wrt P (replicate k x)"
  by (induction k) auto

lemma svd_shapes_example: "svd_shapes example_numerics"
  by (simp add: svd_shapes_def example_numerics_def svd_example_def nrows_def eye_def Let_def)

lemma svd_sorted_example: "svd_sorted example_numerics"
  by (simp add: svd_sorted_def example_numerics_def svd_example_def Let_def
      sorted_wrt_replicate_refl list_all_iff)

lemma svd_rank_bounded_example: "svd_rank_bounded example_numerics"
  by (simp add: svd_rank_bounded_def example_numerics_def svd_rank_spec_def)

section \<open>The first worked input, step by step\<close>

lemma sqrt_vals:
  "sqrt (81/625) = 9/25" "sqrt (144/625) = 12/25" "sqrt (256/625) = 16/25"
  "sqrt (9/25) = 3/5" "sqrt (16/25) = 4/5" "sqrt (1/4) = 1/2"
  by (rule real_sqrt_unique; simp add: power2_eq_square)+

lemma Q_ex: "cca_Q Y_example = \<lparr>ncols = 2, rows = [[9/25, 0], [0, 16/25]]\<rparr>"
  by (simp add: cca_Q_def cca_grand_total_def asum_def map_array_def Y_example_def)

lemma rm_ex: "cca_row_marginals Y_example = [9/25, 16/25]"
  by (simp add: cca_row_marginals_def Q_ex sum_axis1_def)

lemma cm_ex: "cca_column_marginals Y_example = [9/25, 16/25]"
  by (simp add: cca_column_marginals_def Q_ex sum_axis0_def column_def upt2)

lemma expected_ex:
  "cca_expected Y_example = \<lparr>ncols = 2, rows = [[81/625, 144/625], [144/625, 256/625]]\<rparr>"
  by (simp add: cca_expected_def rm_ex cm_ex outer_def)

lemma no_zero_ex: "\<not> zero_in_expected Y_example"
  by (simp add: zero_in_expected_def expected_ex)

lemma Q_bar_ex: "cca_Q_bar Y_example = Y_hat_example"
  by (simp add: cca_Q_bar_def expected_ex Q_ex zip_array_def Y_hat_example_def sqrt_vals)

lemma scale_ex:
  "scale example_numerics X_example (cca_row_marginals Y_example) = Some X_scaled_example"
  by (simp add: example_numerics_def scale_spec_def rm_ex X_example_def X_scaled_example_def
      weighted_std_def weighted_mean_def column_def upt2 power2_eq_square sqrt_vals)

lemma X_weighted_ex:
  "cca_X_weighted Y_example X_scaled_example = \<lparr>ncols = 1, rows = [[-4/5], [3/5]]\<rparr>"
  by (simp add: cca_X_weighted_def X_scaled_example_def rm_ex mul_rows_def sqrt_vals)

lemma B_ex:
  "cca_B example_numerics Y_example X_scaled_example = \<lparr>ncols = 2, rows = [[-4/5, 3/5]]\<rparr>"
  unfolding cca_B_def X_weighted_ex Q_bar_ex
  by (simp add: example_numerics_def lstsq_single_def Y_hat_example_def column_def upt2)

lemma Y_hat_ex: "cca_Y_hat example_numerics Y_example X_scaled_example = Y_hat_example"
  by (simp add: cca_Y_hat_def X_weighted_ex B_ex dot_def column_def upt2 Y_hat_example_def)

lemma u_ex:
  "cca_u example_numerics Y_example X_scaled_example = \<lparr>ncols = 1, rows = [[-4/5], [3/5]]\<rparr>"
  unfolding cca_u_def Y_hat_ex
  by (simp add: u_of_def rank_of_def example_numerics_def svd_example_def svd_rank_spec_def
      shape_def nrows_def Y_hat_example_def take_cols_def)

lemma pearson_ex: "pearson [-4/5, 3/5] [-4/5, 3/5] = 1"
proof -
  have m: "mean_list [-4/5, 3/5] = -1/10"
    by (simp add: mean_list_def)
  have d: "sum_list (map (\<lambda>u. (u - mean_list [-4/5, 3/5]) ^ 2) [-4/5, 3/5]) = 49/50"
    unfolding m by (simp add: power2_eq_square)
  have n: "sum_list (map2 (\<lambda>u v. (u - mean_list [-4/5, 3/5]) * (v - mean_list [-4/5, 3/5]))
             [-4/5, 3/5] [-4/5, 3/5]) = 49/50"
    unfolding m by simp
  show ?thesis
    unfolding pearson_def d n by simp
qed

lemma biplot_ex:
  "cca_biplot_scores example_numerics Y_example X_scaled_example = \<lparr>ncols = 1, rows = [[1]]\<rparr>"
  unfolding cca_biplot_scores_def X_weighted_ex u_ex
  by (simp add: example_numerics_def corr_spec_def column_def upt2 pearson_ex[simplified])

lemma sanity_ex:
  "sanity_checks Y_example X_example 1 = Inr ()"
  "sanity_checks Y_example X_example 2 = Inr ()"
  by (simp_all add: sanity_checks_eq ex_simps spec_UnsupportedScaling_def)

lemma compute_ex:
  "cca_compute example_numerics Y_example X_example scaling = Inr (example_locals scaling)"
  by (simp add: example_locals_def cca_compute_completes[OF scale_ex no_zero_ex])

lemma locals_ex:
  "example_locals scaling =
     \<lparr>local_eigenvalues = cca_eigenvalues example_numerics Y_example X_scaled_example,
      local_species_scores = cca_species_scores example_numerics Y_example X_scaled_example scaling,
      local_site_scores = cca_site_scores example_numerics Y_example X_scaled_example scaling,
      local_site_constraints =
        cca_site_constraints example_numerics Y_example X_scaled_example scaling,
      local_biplot_scores = cca_biplot_scores example_numerics Y_example X_scaled_example\<rparr>"
  by (simp add: example_locals_def cca_compute_completes[OF scale_ex no_zero_ex])

lemma raises_ex:
  "cca example_numerics y_example x_example 1 = Inl NameError"
  "cca example_numerics y_example x_example 2 = Inl NameError"
  by (rule cca_raises_NameError[where X = X_scaled_example];
      simp add: sanity_ex ex_simps scale_ex no_zero_ex)+

section \<open>The single-feature input, step by step\<close>

lemma single_mats:
  "as_matrix y_single = Y_single" "as_matrix x_single = X_single"
  "as_matrix y_zero_column = Y_zero_column" "as_matrix x_ones = X_ones"
  by (simp_all add: as_matrix_def y_single_def x_single_def y_zero_column_def x_ones_def)

lemma single_simps:
  "sanity_checks Y_single X_single 1 = Inr ()"
  by (simp add: sanity_checks_def Y_single_def X_single_def nrows_def amin_def)

lemma Q_single: "cca_Q Y_single = \<lparr>ncols = 1, rows = [[1/2], [1/2]]\<rparr>"
  by (simp add: cca_Q_def cca_grand_total_def asum_def map_array_def Y_single_def)

lemma rm_single: "cca_row_marginals Y_single = [1/2, 1/2]"
  by (simp add: cca_row_marginals_def Q_single sum_axis1_def)

lemma cm_single: "cca_column_marginals Y_single = [1]"
  by (simp add: cca_column_marginals_def Q_single sum_axis0_def column_def upt2)

lemma expected_single:
  "cca_expected Y_single = \<lparr>ncols = 1, rows = [[1/2], [1/2]]\<rparr>"
  by (simp add: cca_expected_def rm_single cm_single outer_def)

lemma no_zero_single: "\<not> zero_in_expected Y_single"
  by (simp add: zero_in_expected_def expected_single)

lemma scale_single:
  "scale example_numerics X_single (cca_row_marginals Y_single)
     = Some X_scaled_single"
  by (simp add: example_numerics_def scale_spec_def rm_single X_single_def
      X_scaled_single_def weighted_std_def weighted_mean_def column_def upt2 power2_eq_square
      sqrt_vals)








lemma compute_single:
  "cca_compute example_numerics Y_single X_single 1 = Inr single_locals"
  by (simp add: single_locals_def cca_compute_completes[OF scale_single no_zero_single])


lemma raises_single: "cca example_numerics y_single x_single 1 = Inl NameError"
  by (rule cca_raises_NameError[where X = X_scaled_single])
     (simp_all add: single_mats single_simps scale_single no_zero_single)

section \<open>The input with an absent feature, step by step\<close>

lemma sanity_zero_column:
  "sanity_checks Y_zero_column X_ones 1 = Inr ()"
  by (simp add: sanity_checks_def Y_zero_column_def X_ones_def nrows_def amin_def)

lemma Q_zero_column: "cca_Q Y_zero_column = \<lparr>ncols = 2, rows = [[1/2, 0], [1/2, 0]]\<rparr>"
  by (simp add: cca_Q_def cca_grand_total_def asum_def map_array_def Y_zero_column_def)

lemma cm_zero_column: "cca_column_marginals Y_zero_column = [1, 0]"
  by (simp add: cca_column_marginals_def Q_zero_column sum_axis0_def column_def upt2)

lemma rm_zero_column: "cca_row_marginals Y_zero_column = [1/2, 1/2]"
  by (simp add: cca_row_marginals_def Q_zero_column sum_axis1_def)

lemma expected_zero_column:
  "cca_expected Y_zero_column = \<lparr>ncols = 2, rows = [[1/2, 0], [1/2, 0]]\<rparr>"
  by (simp add: cca_expected_def cm_zero_column rm_zero_column outer_def)

lemma zero_in_expected_zero_column: "zero_in_expected Y_zero_column"
  by (simp add: zero_in_expected_def expected_zero_column)

section \<open>A standardised table of zeros gives fitted rank zero\<close>

text \<open>
  When the standardised \<open>X\<close> is a table of zeros, \<open>X_weighted\<close> and \<open>Y_hat\<close> are tables of
  zeros whatever the coefficients are; if the decomposition of a zero table has only zero
  singular values and \<open>svd_rank\<close> counts none of them, the fitted rank is 0.
\<close>

lemma sum_list_zero_row:
  "list_all (\<lambda>v. v = 0) r \<Longrightarrow> sum_list (map2 (\<lambda>a b. a * b) r (c::real list)) = 0"
proof (induction r arbitrary: c)
  case Nil
  then show ?case by simp
next
  case (Cons a r)
  then show ?case by (cases c) simp_all
qed

lemma all_zero_mul_rows: "all_zero A \<Longrightarrow> all_zero (mul_rows v A)"
  by (auto simp: all_zero_def mul_rows_def list_all_iff dest!: set_zip_rightD)

lemma all_zero_dot: "all_zero A \<Longrightarrow> all_zero (dot A B)"
  by (auto simp: all_zero_def dot_def list_all_iff intro!: sum_list_zero_row)

lemma fitted_rank_zero:
  assumes "all_zero X"
    and "\<And>M. all_zero M \<Longrightarrow> list_all (\<lambda>v. v = 0) (fst (snd (np_svd L M)))"
    and "\<And>sh s. list_all (\<lambda>v. v = 0) s \<Longrightarrow> svd_rank L sh s = 0"
  shows "cca_rank L Y X = 0"
proof -
  have "all_zero (cca_Y_hat L Y X)"
    using assms(1) by (simp add: cca_Y_hat_def cca_X_weighted_def all_zero_mul_rows all_zero_dot)
  then have z: "list_all (\<lambda>v. v = 0) (fst (snd (np_svd L (cca_Y_hat L Y X))))"
    by (rule assms(2))
  show ?thesis
  proof (cases "np_svd L (cca_Y_hat L Y X)")
    case (fields u s vt)
    with z have "list_all (\<lambda>v. v = 0) s" by simp
    then show ?thesis
      by (simp add: cca_rank_def rank_of_def fields assms(3))
  qed
qed

section \<open>The claims about the result\<close>

text \<open>
  C2. The claim is about the returned result, and no call returns one: on the first worked
  input the call passes the parameter checks, lines 125 to 214 complete, and line 216 raises
  \<open>NameError\<close>. The locals that would have been returned have the claimed shape: as many
  eigenvalues as columns of the site scores and of the species scores, in every row.
\<close>

theorem cca_shapes_not_returned:
  "cca example_numerics y_example x_example 1 = Inl NameError \<and>
   cca_compute example_numerics Y_example X_example 1 = Inr (example_locals 1) \<and>
   ncols (local_site_scores (example_locals 1)) = length (local_eigenvalues (example_locals 1)) \<and>
   ncols (local_species_scores (example_locals 1))
     = length (local_eigenvalues (example_locals 1)) \<and>
   rows_of_length (length (local_eigenvalues (example_locals 1)))
     (local_site_scores (example_locals 1)) \<and>
   rows_of_length (length (local_eigenvalues (example_locals 1)))
     (local_species_scores (example_locals 1))"
  using locals_shapes(2-5)[OF svd_shapes_example, of Y_example X_scaled_example 1]
  by (simp add: raises_ex compute_ex locals_ex)

text \<open>
  C3. The claim is about the outputs of two calls, and neither call returns: on the first
  worked input both scalings end in \<open>NameError\<close> at line 216. The locals of the two calls
  are related as claimed, column by column by the singular values of the fitted block
  followed by those of the residual block.
\<close>

theorem cca_duality_not_returned:
  "cca example_numerics y_example x_example 1 = Inl NameError \<and>
   cca example_numerics y_example x_example 2 = Inl NameError \<and>
   local_site_scores (example_locals 1) =
     mul_cols (local_site_scores (example_locals 2))
       (cca_s example_numerics Y_example X_scaled_example
        @ cca_s_res example_numerics Y_example X_scaled_example) \<and>
   local_species_scores (example_locals 2) =
     mul_cols (local_species_scores (example_locals 1))
       (cca_s example_numerics Y_example X_scaled_example
        @ cca_s_res example_numerics Y_example X_scaled_example)"
  using locals_duality[OF svd_shapes_example, of Y_example X_scaled_example]
  by (simp add: raises_ex locals_ex)

text \<open>
  C4. \<open>proportion_explained\<close> is computed on line 226, which no call reaches: on the
  single-feature input and on the first worked input lines 125 to 214 complete and line 216
  raises \<open>NameError\<close>, so there is no \<open>proportion_explained\<close> at all.
\<close>

theorem cca_proportion_not_computed:
  "cca_compute example_numerics Y_single X_single 1 = Inr single_locals \<and>
   cca example_numerics y_single x_single 1 = Inl NameError \<and>
   cca_compute example_numerics Y_example X_example 2 = Inr (example_locals 2) \<and>
   cca example_numerics y_example x_example 2 = Inl NameError"
  by (simp add: compute_single raises_single compute_ex raises_ex)

text \<open>
  C5. The claim is about the eigenvalues of the returned result, and no call returns one:
  on the first worked input, with scaling 2, line 216 raises \<open>NameError\<close>. The local
  \<open>eigenvalues\<close> is in non-increasing order within the fitted block and within the residual
  block.
\<close>

theorem cca_sorted_not_returned:
  "cca example_numerics y_example x_example 2 = Inl NameError \<and>
   sorted_wrt (\<lambda>a b. b \<le> a)
     (take (length (cca_s example_numerics Y_example X_scaled_example))
        (local_eigenvalues (example_locals 2))) \<and>
   sorted_wrt (\<lambda>a b. b \<le> a)
     (drop (length (cca_s example_numerics Y_example X_scaled_example))
        (local_eigenvalues (example_locals 2)))"
  using locals_sorted[OF svd_sorted_example, of Y_example X_scaled_example]
  by (simp add: raises_ex locals_ex)

text \<open>
  C6. No identifier of the input reaches an output. The labels of \<open>y\<close> and \<open>x\<close> are never
  read: the call on the first worked input, whose samples are \<open>site1\<close> and \<open>site2\<close>, ends
  as the call on the same tables without any label does, with \<open>NameError\<close> at the line that
  would have attached the empty list as labels.
\<close>

theorem cca_labels_unused:
  "index y_example = [''site1'', ''site2''] \<and> columns y_example = [''sp1'', ''sp2''] \<and>
   columns x_example = [''depth''] \<and>
   cca example_numerics y_example x_example 1 = Inl NameError \<and>
   cca example_numerics (y_example\<lparr>index := [], columns := []\<rparr>)
       (x_example\<lparr>index := [], columns := []\<rparr>) 1
     = cca example_numerics y_example x_example 1"
proof -
  have "index y_example = [''site1'', ''site2'']" "columns y_example = [''sp1'', ''sp2'']"
    "columns x_example = [''depth'']"
    by (simp_all add: y_example_def x_example_def)
  then show ?thesis
    by (simp add: cca_ignores_labels raises_ex)
qed




text \<open>
  C8. The claim is about the \<open>biplot_scores\<close> of the returned result, and no call returns
  one: on the first worked input line 216 raises \<open>NameError\<close>. The local
  \<open>biplot_scores\<close> is \<open>corr\<close> of \<open>X_weighted\<close> and the first \<open>rank\<close> columns of the left
  factor of the decomposition of \<open>Y_hat\<close>, here one column, which correlates perfectly with
  the only constraint.
\<close>

theorem cca_biplot_not_returned:
  "cca example_numerics y_example x_example 1 = Inl NameError \<and>
   local_biplot_scores (example_locals 1) =
     corr example_numerics (cca_X_weighted Y_example X_scaled_example)
       (take_cols (rank_of example_numerics (cca_Y_hat example_numerics Y_example X_scaled_example))
          (fst (np_svd example_numerics
                  (cca_Y_hat example_numerics Y_example X_scaled_example)))) \<and>
   take_cols (rank_of example_numerics (cca_Y_hat example_numerics Y_example X_scaled_example))
     (fst (np_svd example_numerics (cca_Y_hat example_numerics Y_example X_scaled_example)))
     = \<lparr>ncols = 1, rows = [[-4/5], [3/5]]\<rparr> \<and>
   local_biplot_scores (example_locals 1) = \<lparr>ncols = 1, rows = [[1]]\<rparr>"
proof -
  have u: "take_cols (rank_of example_numerics (cca_Y_hat example_numerics Y_example X_scaled_example))
        (fst (np_svd example_numerics (cca_Y_hat example_numerics Y_example X_scaled_example)))
      = cca_u example_numerics Y_example X_scaled_example"
    by (simp add: cca_u_def u_of_def split: prod.splits)
  have b: "local_biplot_scores (example_locals 1)
             = cca_biplot_scores example_numerics Y_example X_scaled_example"
    by (simp add: locals_ex)
  have c: "cca_biplot_scores example_numerics Y_example X_scaled_example
             = corr example_numerics (cca_X_weighted Y_example X_scaled_example)
                 (cca_u example_numerics Y_example X_scaled_example)"
    by (simp add: cca_biplot_scores_def)
  show ?thesis
    unfolding u b
    using c by (simp add: raises_ex biplot_ex u_ex)
qed

text \<open>
  C9. The claim asks for finite coordinates, that is, that no division of the computation has
  divisor zero, whenever \<open>X\<close> is the constant column 1. On a table that passes the parameter
  checks but has an absent feature, the column marginal of that feature is 0, so \<open>expected\<close>
  has entries 0: line 137 divides by their square root and line 175 by the square root of
  the marginal. The call ends in \<open>LinAlgError\<close>, with no result.
\<close>

theorem cca_zero_column_divides:
  "sanity_checks (as_matrix y_zero_column) (as_matrix x_ones) 1 = Inr () \<and>
   cca_column_marginals (as_matrix y_zero_column) = [1, 0] \<and>
   cca_expected (as_matrix y_zero_column) = \<lparr>ncols = 2, rows = [[1/2, 0], [1/2, 0]]\<rparr> \<and>
   zero_in_expected (as_matrix y_zero_column) \<and>
   cca example_numerics y_zero_column x_ones 1 = Inl LinAlgError"
proof -
  have s: "sanity_checks (as_matrix y_zero_column) (as_matrix x_ones) 1 = Inr ()"
    by (simp add: single_mats sanity_zero_column)
  have z: "zero_in_expected (as_matrix y_zero_column)"
    by (simp add: single_mats zero_in_expected_zero_column)
  have "cca example_numerics y_zero_column x_ones 1 = Inl LinAlgError"
    using cca_raises_LinAlgError[OF s, of example_numerics] z by simp
  moreover have "cca_column_marginals (as_matrix y_zero_column) = [1, 0]"
    "cca_expected (as_matrix y_zero_column) = \<lparr>ncols = 2, rows = [[1/2, 0], [1/2, 0]]\<rparr>"
    by (simp_all add: single_mats cm_zero_column expected_zero_column)
  ultimately show ?thesis
    using s z by simp
qed

end
